theory Spec2Isabelle
  imports Main "HOL-Library.Finite_Map" "HOL-Library.Word"
begin

section \<open>JavaScript values\<close>

text \<open>
  The client (\<^verbatim>\<open>index.js\<close>) and its test helpers handle untyped JavaScript values: the
  construction parameters, the bodies and headers of HTTP responses, the error objects handed
  to the retry handlers. They are modelled by one datatype: the JSON values, \<^verbatim>\<open>undefined\<close>,
  and \<open>JBuiltin k\<close> for the member \<open>k\<close> that a plain object inherits from
  \<^verbatim>\<open>Object.prototype\<close> (opaque here).

  Scope of the model. A number is an integer from \<open>- 2 ^ 53\<close> to \<open>2 ^ 53 - 1\<close>, the
  range of a 54-bit two's-complement word: these are the integers that a JavaScript number
  holds exactly and prints in full (status codes, lengths). An object is a finite map from
  property names to values, with \<^verbatim>\<open>Object.prototype\<close> as its prototype; the enumeration
  order of properties is not represented; own properties hold data, never functions. The
  members of the other built-in prototypes (\<^verbatim>\<open>Array.prototype\<close>, \<^verbatim>\<open>String.prototype\<close>, ...)
  are not represented, and none of the property names the source reads is one of them.
\<close>

datatype jsval =
    JUndefined
  | JNull
  | JBool bool
  | JNum "54 word"
  | JStr string
  | JArr "jsval list"
  | JObj "(string, jsval) fmap"
  | JBuiltin string

text \<open>What the source can throw: the engine's \<^verbatim>\<open>TypeError\<close> and \<^verbatim>\<open>new Error(msg)\<close>.\<close>

datatype thrown = TypeError | Error string

definition bindE :: "thrown + 'a \<Rightarrow> ('a \<Rightarrow> thrown + 'b) \<Rightarrow> thrown + 'b" where
  "bindE r f = (case r of Inl e \<Rightarrow> Inl e | Inr x \<Rightarrow> f x)"

fun decimal :: "nat \<Rightarrow> string" where
  "decimal n =
     (if n < 10 then [''0123456789'' ! n]
      else decimal (n div 10) @ [''0123456789'' ! (n mod 10)])"

declare decimal.simps [simp del]

definition nullish :: "jsval \<Rightarrow> bool" where
  "nullish v = (v = JUndefined \<or> v = JNull)"

definition object_prototype_members :: "string list" where
  "object_prototype_members =
     [''constructor'', ''__defineGetter__'', ''__defineSetter__'', ''hasOwnProperty'',
      ''__lookupGetter__'', ''__lookupSetter__'', ''isPrototypeOf'',
      ''propertyIsEnumerable'', ''toString'', ''valueOf'', ''__proto__'',
      ''toLocaleString'']"

definition inherited :: "string \<Rightarrow> jsval" where
  "inherited k = (if k \<in> set object_prototype_members then JBuiltin k else JUndefined)"

text \<open>The \<^verbatim>\<open>length\<close> of a string or an array, as a number. A string has at most
  \<open>2 ^ 53 - 1\<close> elements and an array fewer than \<open>2 ^ 32\<close>, so the bound is never reached.\<close>

definition MAX_SAFE_INTEGER :: nat where
  "MAX_SAFE_INTEGER = 2 ^ 53 - 1"

definition length_value :: "nat \<Rightarrow> jsval" where
  "length_value n = JNum (of_nat (min n MAX_SAFE_INTEGER))"

text \<open>The own property \<open>k\<close> of a value: a key of an object, an index or \<^verbatim>\<open>length\<close> of an
  array or a string.\<close>

fun own_property :: "jsval \<Rightarrow> string \<Rightarrow> jsval option" where
  "own_property (JObj m) k = fmlookup m k"
| "own_property (JArr xs) k =
     (if k = ''length'' then Some (length_value (length xs))
      else map_option (\<lambda>i. xs ! i) (find (\<lambda>i. decimal i = k) [0..<length xs]))"
| "own_property (JStr s) k =
     (if k = ''length'' then Some (length_value (length s))
      else map_option (\<lambda>i. JStr [s ! i]) (find (\<lambda>i. decimal i = k) [0..<length s]))"
| "own_property v k = None"

text \<open>\<^verbatim>\<open>v.k\<close>: a \<^verbatim>\<open>TypeError\<close> on \<^verbatim>\<open>undefined\<close> and \<^verbatim>\<open>null\<close>; on any other value
  \<open>field v k\<close>, the own property where there is one, the inherited member otherwise,
  \<^verbatim>\<open>undefined\<close> when there is none.\<close>

definition field :: "jsval \<Rightarrow> string \<Rightarrow> jsval" where
  "field v k = (case own_property v k of Some x \<Rightarrow> x | None \<Rightarrow> inherited k)"

definition member :: "jsval \<Rightarrow> string \<Rightarrow> thrown + jsval" where
  "member v k = (if nullish v then Inl TypeError else Inr (field v k))"

text \<open>\<^verbatim>\<open>ToString\<close>, as a template literal and a computed member access apply it. A number
  prints in decimal. An object that carries an own \<^verbatim>\<open>toString\<close> property (data, so not
  callable) has no primitive value: \<^verbatim>\<open>TypeError\<close>. An array joins its elements with commas,
  \<^verbatim>\<open>null\<close> and \<^verbatim>\<open>undefined\<close> elements as empty strings. Of the inherited members,
  \<^verbatim>\<open>constructor\<close> is the function \<^verbatim>\<open>Object\<close>, \<^verbatim>\<open>__proto__\<close> is the object
  \<^verbatim>\<open>Object.prototype\<close>, and the others are functions of their own name.\<close>

fun join :: "string list \<Rightarrow> string" where
  "join [] = []"
| "join [s] = s"
| "join (s # t # ss) = s @ '','' @ join (t # ss)"

definition number_to_string :: "54 word \<Rightarrow> string" where
  "number_to_string w =
     (if sint w < 0 then ''-'' @ decimal (nat (- sint w)) else decimal (nat (sint w)))"

fun to_str :: "jsval \<Rightarrow> thrown + string"
  and to_str_elems :: "jsval list \<Rightarrow> thrown + string list" where
  "to_str JUndefined = Inr ''undefined''"
| "to_str JNull = Inr ''null''"
| "to_str (JBool b) = Inr (if b then ''true'' else ''false'')"
| "to_str (JNum w) = Inr (number_to_string w)"
| "to_str (JStr s) = Inr s"
| "to_str (JArr xs) =
     (case to_str_elems xs of Inl e \<Rightarrow> Inl e | Inr ss \<Rightarrow> Inr (join ss))"
| "to_str (JObj m) =
     (if ''toString'' |\<in>| fmdom m then Inl TypeError else Inr ''[object Object]'')"
| "to_str (JBuiltin k) =
     Inr (if k = ''__proto__'' then ''[object Object]''
          else if k = ''constructor'' then ''function Object() { [native code] }''
          else ''function '' @ k @ ''() { [native code] }'')"
| "to_str_elems [] = Inr []"
| "to_str_elems (x # xs) =
     (case (if nullish x then Inr [] else to_str x) of
        Inl e \<Rightarrow> Inl e
      | Inr s \<Rightarrow> (case to_str_elems xs of Inl e \<Rightarrow> Inl e | Inr ss \<Rightarrow> Inr (s # ss)))"

text \<open>\<^verbatim>\<open>obj[key]\<close> and \<^verbatim>\<open>key in obj\<close>: the key is converted to a string first; \<^verbatim>\<open>in\<close> sees
  own and inherited properties, and throws when its right operand is not an object.\<close>

definition elem :: "jsval \<Rightarrow> jsval \<Rightarrow> thrown + jsval" where
  "elem obj key = (if nullish obj then Inl TypeError else bindE (to_str key) (member obj))"

definition is_object :: "jsval \<Rightarrow> bool" where
  "is_object v = (case v of JObj m \<Rightarrow> True | JArr xs \<Rightarrow> True | JBuiltin k \<Rightarrow> True | _ \<Rightarrow> False)"

definition in_op :: "jsval \<Rightarrow> jsval \<Rightarrow> thrown + bool" where
  "in_op key obj =
     (if \<not> is_object obj then Inl TypeError
      else bindE (to_str key)
             (\<lambda>k. Inr (own_property obj k \<noteq> None \<or> k \<in> set object_prototype_members)))"

definition typeof :: "jsval \<Rightarrow> string" where
  "typeof v =
     (case v of
        JUndefined \<Rightarrow> ''undefined''
      | JNull \<Rightarrow> ''object''
      | JBool b \<Rightarrow> ''boolean''
      | JNum i \<Rightarrow> ''number''
      | JStr s \<Rightarrow> ''string''
      | JArr xs \<Rightarrow> ''object''
      | JObj m \<Rightarrow> ''object''
      | JBuiltin k \<Rightarrow> (if k = ''__proto__'' then ''object'' else ''function''))"

definition obj :: "(string \<times> jsval) list \<Rightarrow> jsval" where
  "obj kvs = JObj (fmap_of_list kvs)"

text \<open>\<^verbatim>\<open>x !== undefined ? x : {}\<close>, the default of \<^verbatim>\<open>alexaSMAPI\<close> and of the \<^verbatim>\<open>rest\<close>
  calls for an argument that is left out.\<close>

definition or_empty :: "jsval \<Rightarrow> jsval" where
  "or_empty parameters = (if parameters \<noteq> JUndefined then parameters else obj [])"


section \<open>The client: construction and configuration (index.js)\<close>

definition BASE_URLS :: jsval where
  "BASE_URLS =
     obj [(''NA'', JStr ''https://api.amazonalexa.com''),
          (''EU'', JStr ''https://api.eu.amazonalexa.com''),
          (''FE'', JStr ''https://api.fe.amazonalexa.com'')]"

definition DEFAULT_GEO_REGION :: jsval where
  "DEFAULT_GEO_REGION = JStr ''NA''"

definition VERSION_0 :: jsval where
  "VERSION_0 = JStr ''v0''"

definition VERSION_1 :: jsval where
  "VERSION_1 = JStr ''v1''"

definition SUPPORTED_VERSIONS :: "jsval list" where
  "SUPPORTED_VERSIONS = [VERSION_0, VERSION_1]"

definition DEFAULT_VERSION :: jsval where
  "DEFAULT_VERSION = SUPPORTED_VERSIONS ! (length SUPPORTED_VERSIONS - 1)"

text \<open>The state a client's closures reach: \<^verbatim>\<open>smapi.version\<close> and the \<^verbatim>\<open>baseURL\<close> handed to
  \<^verbatim>\<open>axios.create\<close> (per client), and the two fields of the process-wide
  \<^verbatim>\<open>axios.defaults\<close> that \<^verbatim>\<open>refreshToken\<close> and \<^verbatim>\<open>setBaseUrl\<close> assign.\<close>

record smapi =
  version :: jsval
  client_baseURL :: jsval

record axios_defaults =
  headers_common_Authorization :: jsval
  baseURL :: jsval

text \<open>\<^verbatim>\<open>alexaSMAPI(params)\<close>, lines 18-30: the version, then the base URL.\<close>

definition alexaSMAPI :: "jsval \<Rightarrow> thrown + smapi" where
  "alexaSMAPI params0 =
     (let params = or_empty params0 in
      bindE (member params ''version'') (\<lambda>pv.
        let v = (if pv \<in> set SUPPORTED_VERSIONS then pv else DEFAULT_VERSION) in
        bindE (member params ''region'') (\<lambda>region.
          bindE (in_op region BASE_URLS) (\<lambda>known.
            bindE (elem BASE_URLS (if known then region else DEFAULT_GEO_REGION)) (\<lambda>url.
              Inr \<lparr>version = v, client_baseURL = url\<rparr>)))))"

text \<open>\<^verbatim>\<open>smapi.refreshToken\<close> and \<^verbatim>\<open>smapi.setBaseUrl\<close>, lines 58-70. \<^verbatim>\<open>||\<close> evaluates
  \<^verbatim>\<open>token.length\<close> only for a string.\<close>

definition refreshToken :: "jsval \<Rightarrow> smapi \<times> axios_defaults \<Rightarrow> thrown + smapi \<times> axios_defaults" where
  "refreshToken token st =
     (if (if typeof token \<noteq> ''string'' then True else member token ''length'' = Inr (JNum 0))
      then Inl (Error ''Invalid token specified!'')
      else Inr (fst st, (snd st)\<lparr>headers_common_Authorization := token\<rparr>))"

definition setBaseUrl :: "jsval \<Rightarrow> smapi \<times> axios_defaults \<Rightarrow> thrown + smapi \<times> axios_defaults" where
  "setBaseUrl url st =
     (if (if typeof url \<noteq> ''string'' then True else member url ''length'' = Inr (JNum 0))
      then Inl (Error ''Invalid base url specified!'')
      else Inr (fst st, (snd st)\<lparr>baseURL := url\<rparr>))"


text \<open>The object that \<^verbatim>\<open>alexaSMAPI\<close> returns is a plain object (\<^verbatim>\<open>{ BASE_URLS, version }\<close>,
  line 21) and every operation reads \<^verbatim>\<open>smapi.version\<close> when it is called: an assignment
  \<^verbatim>\<open>client.version = v\<close> by the caller is a write to that property.\<close>

definition write_version :: "jsval \<Rightarrow> smapi \<Rightarrow> smapi" where
  "write_version v client = client\<lparr>version := v\<rparr>"


section \<open>The transport adapter and the operations (index.js)\<close>

text \<open>
  \<^verbatim>\<open>rest.client\<close> is the axios instance: the environment. It is a parameter of the model, a
  function from the call made on it to the way the returned promise settles: fulfilled with
  a response, or rejected with a reason. A callback that throws rejects the promise that
  \<^verbatim>\<open>then\<close> returns, with what was thrown.
\<close>

datatype request =
    Head string
  | Get string jsval
  | Post string jsval
  | Put string jsval
  | Delete string

datatype rejection = Exn thrown | Reason jsval

datatype 'a settled = Fulfilled 'a | Rejected rejection

fun then_settled :: "'a settled \<Rightarrow> ('a \<Rightarrow> thrown + 'b) \<Rightarrow> 'b settled" where
  "then_settled (Fulfilled v) f = (case f v of Inl e \<Rightarrow> Rejected (Exn e) | Inr r \<Rightarrow> Fulfilled r)"
| "then_settled (Rejected r) f = Rejected r"

fun catch_settled :: "'a settled \<Rightarrow> (rejection \<Rightarrow> 'a settled) \<Rightarrow> 'a settled" where
  "catch_settled (Fulfilled v) g = Fulfilled v"
| "catch_settled (Rejected r) g = g r"

text \<open>\<^verbatim>\<open>response => Promise.reject(response.response)\<close>: an error thrown by the engine has
  no \<^verbatim>\<open>response\<close> property.\<close>

fun reject_response :: "rejection \<Rightarrow> 'a settled" where
  "reject_response (Exn e) = Rejected (Reason JUndefined)"
| "reject_response (Reason v) =
     (case member v ''response'' of
        Inl e \<Rightarrow> Rejected (Exn e)
      | Inr r \<Rightarrow> Rejected (Reason r))"

text \<open>
  \<^verbatim>\<open>Object.assign(target, source)\<close> takes the own enumerable properties of the source (the
  keys of an object, the indices of an array or of a string, nothing for the rest) and
  writes each to the target as an assignment \<^verbatim>\<open>target[key] = value\<close> does. For every key
  but \<^verbatim>\<open>__proto__\<close> that makes an own property of the target. The key \<^verbatim>\<open>__proto__\<close>, which
  an object parsed from JSON can own, reaches the accessor of \<^verbatim>\<open>Object.prototype\<close>: a value
  that is an object or \<^verbatim>\<open>null\<close> becomes the prototype of the target, any other value is
  ignored, and no own property is made. (Only a target that owns \<^verbatim>\<open>__proto__\<close> already, or
  whose prototype was replaced by \<^verbatim>\<open>null\<close> or by an object that owns \<^verbatim>\<open>__proto__\<close>, gets it
  as an own property.) So the object under construction is its own properties and, when it
  was replaced, its prototype.
\<close>

fun own_enumerable :: "jsval \<Rightarrow> (string, jsval) fmap" where
  "own_enumerable (JObj m) = m"
| "own_enumerable (JArr xs) = fmap_of_list (zip (map decimal [0..<length xs]) xs)"
| "own_enumerable (JStr s) =
     fmap_of_list (zip (map decimal [0..<length s]) (map (\<lambda>c. JStr [c]) s))"
| "own_enumerable v = fmempty"

record assigned =
  own :: "(string, jsval) fmap"
  replaced_prototype :: "jsval option"

definition fresh_object :: assigned where
  "fresh_object = \<lparr>own = fmempty, replaced_prototype = None\<rparr>"

definition accepts_prototype :: "jsval \<Rightarrow> bool" where
  "accepts_prototype v = (is_object v \<or> v = JNull)"

definition set_proto_key :: "assigned \<Rightarrow> jsval \<Rightarrow> assigned" where
  "set_proto_key t v =
     (if ''__proto__'' |\<in>| fmdom (own t) then t\<lparr>own := fmupd ''__proto__'' v (own t)\<rparr>
      else
        (case replaced_prototype t of
           None \<Rightarrow> if accepts_prototype v then t\<lparr>replaced_prototype := Some v\<rparr> else t
         | Some p \<Rightarrow>
             if p = JNull \<or> own_property p ''__proto__'' \<noteq> None
             then t\<lparr>own := fmupd ''__proto__'' v (own t)\<rparr>
             else if accepts_prototype v then t\<lparr>replaced_prototype := Some v\<rparr> else t))"

definition assign :: "assigned \<Rightarrow> jsval \<Rightarrow> assigned" where
  "assign target source =
     (let props = own_enumerable source;
          t = target\<lparr>own := own target ++\<^sub>f fmdrop ''__proto__'' props\<rparr>
      in case fmlookup props ''__proto__'' of
           None \<Rightarrow> t
         | Some v \<Rightarrow> set_proto_key t v)"

text \<open>The three callbacks of \<^verbatim>\<open>rest\<close> (lines 33, 38, 43).\<close>

definition location_etag :: "jsval \<Rightarrow> thrown + jsval" where
  "location_etag response =
     bindE (member response ''headers'') (\<lambda>headers.
       bindE (member headers ''location'') (\<lambda>location.
         bindE (member headers ''etag'') (\<lambda>etag.
           Inr (obj [(''location'', location), (''etag'', etag)]))))"

definition response_data :: "jsval \<Rightarrow> thrown + jsval" where
  "response_data response = member response ''data''"

definition location_etag_data :: "jsval \<Rightarrow> thrown + assigned" where
  "location_etag_data response =
     bindE (location_etag response) (\<lambda>le.
       bindE (member response ''data'') (\<lambda>data.
         Inr (assign (assign fresh_object le) data)))"

definition rest_head :: "(request \<Rightarrow> jsval settled) \<Rightarrow> string \<Rightarrow> jsval settled" where
  "rest_head client url =
     catch_settled (then_settled (client (Head url)) location_etag) reject_response"

definition rest_get :: "(request \<Rightarrow> jsval settled) \<Rightarrow> string \<Rightarrow> jsval \<Rightarrow> jsval settled" where
  "rest_get client url parameters =
     catch_settled (then_settled (client (Get url (or_empty parameters))) response_data)
       reject_response"

definition rest_post :: "(request \<Rightarrow> jsval settled) \<Rightarrow> string \<Rightarrow> jsval \<Rightarrow> assigned settled" where
  "rest_post client url parameters =
     catch_settled (then_settled (client (Post url (or_empty parameters))) location_etag_data)
       reject_response"

definition rest_put :: "(request \<Rightarrow> jsval settled) \<Rightarrow> string \<Rightarrow> jsval \<Rightarrow> jsval settled" where
  "rest_put client url parameters =
     catch_settled (then_settled (client (Put url (or_empty parameters))) location_etag)
       reject_response"

definition rest_delete :: "(request \<Rightarrow> jsval settled) \<Rightarrow> string \<Rightarrow> jsval settled" where
  "rest_delete client url =
     catch_settled (then_settled (client (Delete url)) response_data) reject_response"

text \<open>An operation returns the promise of its \<^verbatim>\<open>rest\<close> call, or \<^verbatim>\<open>undefined\<close> (\<open>None\<close>)
  when \<^verbatim>\<open>smapi.version\<close> is neither version; interpolating an argument into the URL may
  throw. Under \<^verbatim>\<open>v0\<close> the arguments move one slot (lines 113-115 and 143-146).
  \<^verbatim>\<open>interactionModel.update\<close> returns the promise of a POST under \<^verbatim>\<open>v0\<close> (\<open>Inl\<close>) and of a
  PUT under \<^verbatim>\<open>v1\<close> (\<open>Inr\<close>).\<close>

definition skills_update ::
  "(request \<Rightarrow> jsval settled) \<Rightarrow> smapi \<Rightarrow> jsval \<Rightarrow> jsval \<Rightarrow> jsval \<Rightarrow>
   thrown + jsval settled option" where
  "skills_update client smapi skillId stage skillManifest0 =
     (if version smapi = VERSION_0 then
        let skillManifest = stage in
        bindE (to_str skillId) (\<lambda>s.
          Inr (Some (rest_put client (''/v0/skills/'' @ s)
                       (obj [(''skillManifest'', skillManifest)]))))
      else if version smapi = VERSION_1 then
        bindE (to_str skillId) (\<lambda>s.
          bindE (to_str stage) (\<lambda>st.
            Inr (Some (rest_put client (''/v1/skills/'' @ s @ ''/stages/'' @ st @ ''/manifest'')
                         (obj [(''manifest'', skillManifest0)])))))
      else Inr None)"


definition interactionModel_update ::
  "(request \<Rightarrow> jsval settled) \<Rightarrow> smapi \<Rightarrow> jsval \<Rightarrow> jsval \<Rightarrow> jsval \<Rightarrow> jsval \<Rightarrow>
   thrown + (assigned settled + jsval settled) option" where
  "interactionModel_update client smapi skillId stage locale0 interactionModel0 =
     (if version smapi = VERSION_0 then
        let interactionModel = locale0; locale = stage in
        bindE (to_str skillId) (\<lambda>s.
          bindE (to_str locale) (\<lambda>l.
            Inr (Some (Inl (rest_post client
                              (''/v0/skills/'' @ s @ ''/interactionModel/locales/'' @ l)
                              (obj [(''interactionModel'', interactionModel)]))))))
      else if version smapi = VERSION_1 then
        bindE (to_str skillId) (\<lambda>s.
          bindE (to_str stage) (\<lambda>st.
            bindE (to_str locale0) (\<lambda>l.
              Inr (Some (Inr (rest_put client
                                (''/v1/skills/'' @ s @ ''/stages/'' @ st
                                 @ ''/interactionModel/locales/'' @ l)
                                (obj [(''interactionModel'', interactionModel0)])))))))
      else Inr None)"

text \<open>In-place mutation of an object: \<open>delete_own v k\<close> is \<^verbatim>\<open>delete v.k\<close> for a name \<open>k\<close>
  that is neither an index nor \<^verbatim>\<open>length\<close> (a no-op on anything but an object that owns
  \<open>k\<close>), and \<open>update_own v k f\<close> is the effect on \<open>v\<close> of a mutation \<open>f\<close> of the object in
  its own property (or array element) \<open>k\<close>.\<close>

fun delete_own :: "jsval \<Rightarrow> string \<Rightarrow> jsval" where
  "delete_own (JObj m) k = JObj (fmdrop k m)"
| "delete_own v k = v"

fun update_own :: "jsval \<Rightarrow> string \<Rightarrow> (jsval \<Rightarrow> jsval) \<Rightarrow> jsval" where
  "update_own (JObj m) k f =
     (case fmlookup m k of Some v \<Rightarrow> JObj (fmupd k (f v) m) | None \<Rightarrow> JObj m)"
| "update_own (JArr xs) k f =
     (case find (\<lambda>i. decimal i = k) [0..<length xs] of
        Some i \<Rightarrow> JArr (xs[i := f (xs ! i)])
      | None \<Rightarrow> JArr xs)"
| "update_own v k f = v"

text \<open>\<^verbatim>\<open>intentRequests.list(params)\<close>, lines 203-207. The first component of the result is
  the caller's \<^verbatim>\<open>params\<close> object as the call leaves it.\<close>

definition intentRequests_list ::
  "(request \<Rightarrow> jsval settled) \<Rightarrow> jsval \<Rightarrow> jsval \<times> (thrown + jsval settled)" where
  "intentRequests_list client params0 =
     (case member params0 ''skillId'' of
        Inl e \<Rightarrow> (params0, Inl e)
      | Inr skillId \<Rightarrow>
          let params = delete_own params0 ''skillId'' in
          (params,
           bindE (to_str skillId) (\<lambda>s.
             Inr (rest_get client (''/v1/skills/'' @ s @ ''/history/intentRequests'') params))))"

text \<open>
  Modelled from the spec: what a call on \<^verbatim>\<open>rest.client\<close> goes out with. axios is not part of
  the sources. The specification (4.1) has the base URL fixed at construction, from the
  region, and has the \<^verbatim>\<open>Authorization\<close> header shared: the instance is created with its own
  \<^verbatim>\<open>baseURL\<close> (lines 24-25), which it keeps, and sends the common default headers.
\<close>

record outgoing =
  base :: jsval
  authorization :: jsval
  call :: request

definition outgoing_call :: "smapi \<times> axios_defaults \<Rightarrow> request \<Rightarrow> outgoing" where
  "outgoing_call st rq =
     \<lparr>base = client_baseURL (fst st),
      authorization = headers_common_Authorization (snd st),
      call = rq\<rparr>"


section \<open>The completion pollers of the test suite\<close>

text \<open>
  The handlers below are the callbacks the test cases give to \<^verbatim>\<open>subject.then\<close>. What the
  code of a test case can do besides computing is: write to the console, call the client,
  and make a promise that sleeps. A run is the list of the events of the first two kinds, in
  order, and the result: a value or a promise, or what was thrown. \<^verbatim>\<open>sleep(ms)\<close> is the
  promise that is fulfilled with \<^verbatim>\<open>undefined\<close> once \<^verbatim>\<open>ms\<close> milliseconds have passed:
  \<open>After ms v\<close> is the promise fulfilled with \<open>v\<close> after \<open>ms\<close> milliseconds. A test case
  that fails is run again by the test framework (\<^verbatim>\<open>this.retries(MAX_RETRIES)\<close>), which is
  not part of the model.
\<close>

datatype event = ConsoleLog string | ConsoleLogJSON jsval | ClientCall request

datatype promise = After nat jsval

datatype ret = Value jsval | Promise promise


definition LOG_ERRORS :: bool where
  "LOG_ERRORS = True"

definition MAX_RETRIES :: nat where
  "MAX_RETRIES = 10"

definition RETRY_TIMEOUT :: nat where
  "RETRY_TIMEOUT = 10000"

definition WITHDRAWAL_TIMEOUT :: nat where
  "WITHDRAWAL_TIMEOUT = 1 * 60 * 1000"




definition showError :: "jsval \<Rightarrow> event list" where
  "showError error = (if LOG_ERRORS then [ConsoleLogJSON error] else [])"

definition errorSummary :: "jsval \<Rightarrow> thrown + jsval" where
  "errorSummary error =
     bindE (member error ''status'') (\<lambda>status.
       bindE (member error ''statusText'') (\<lambda>statusText.
         bindE (member error ''data'') (\<lambda>data.
           Inr (obj [(''status'', status), (''statusText'', statusText), (''data'', data)]))))"

definition sleep :: "nat \<Rightarrow> promise" where
  "sleep ms = After ms JUndefined"

fun then_promise :: "promise \<Rightarrow> (jsval \<Rightarrow> jsval) \<Rightarrow> promise" where
  "then_promise (After ms v) f = After ms (f v)"

text \<open>The line that \<^verbatim>\<open>retry\<close> and \<^verbatim>\<open>waitOnCertification\<close> log before they sleep (lines 56
  and 70): the template reads \<^verbatim>\<open>summary.status\<close> and \<^verbatim>\<open>summary.data.message\<close>.\<close>

definition operation_status_line :: "jsval \<Rightarrow> nat \<Rightarrow> thrown + string" where
  "operation_status_line summary timeout =
     bindE (member summary ''status'') (\<lambda>status.
       bindE (to_str status) (\<lambda>s1.
         bindE (member summary ''data'') (\<lambda>data.
           bindE (member data ''message'') (\<lambda>message.
             bindE (to_str message) (\<lambda>s2.
               Inr (''---> Operation status: '' @ s1 @ '' ('' @ s2 @ '') - will sleep for ''
                    @ decimal (timeout div 1000) @ ''s & retry <---''))))))"

definition retry :: "jsval \<Rightarrow> event list \<times> (thrown + ret)" where
  "retry error =
     (case errorSummary error of
        Inl e \<Rightarrow> ([], Inl e)
      | Inr summary \<Rightarrow>
          (case member summary ''status'' of
             Inl e \<Rightarrow> ([], Inl e)
           | Inr status \<Rightarrow>
               if status = JNum 429 then
                 (case operation_status_line summary RETRY_TIMEOUT of
                    Inl e \<Rightarrow> ([], Inl e)
                  | Inr line \<Rightarrow>
                      ([ConsoleLog line],
                       Inr (Promise (then_promise (sleep RETRY_TIMEOUT) (\<lambda>summary. summary)))))
               else (showError summary, Inr (Value summary))))"

definition waitOnCertification :: "jsval \<Rightarrow> event list \<times> (thrown + ret)" where
  "waitOnCertification error =
     (case errorSummary error of
        Inl e \<Rightarrow> ([], Inl e)
      | Inr summary \<Rightarrow>
          (case member summary ''status'' of
             Inl e \<Rightarrow> ([], Inl e)
           | Inr status \<Rightarrow>
               if status \<noteq> JNum 200 then
                 (case operation_status_line summary WITHDRAWAL_TIMEOUT of
                    Inl e \<Rightarrow> (showError summary, Inl e)
                  | Inr line \<Rightarrow>
                      (showError summary @ [ConsoleLog line],
                       Inr (Promise (then_promise (sleep WITHDRAWAL_TIMEOUT) (\<lambda>summary. summary)))))
               else ([], Inr (Value summary))))"









section \<open>The specification's reading of the version tables\<close>






definition spec_legacy_update_request :: "string \<Rightarrow> string \<Rightarrow> jsval \<Rightarrow> request" where
  "spec_legacy_update_request skillId locale payload =
     Post (''/v0/skills/'' @ skillId @ ''/interactionModel/locales/'' @ locale)
       (obj [(''interactionModel'', payload)])"


text \<open>A transport for the examples: it answers a POST and a PUT with a response that
  carries the URL of the call in its \<^verbatim>\<open>location\<close> header (and, for a POST, the body of the call
  as its data), and rejects every other call.\<close>

fun echo :: "request \<Rightarrow> jsval settled" where
  "echo (Post url body) =
     Fulfilled (obj [(''headers'', obj [(''location'', JStr url)]), (''data'', body)])"
| "echo (Put url body) =
     Fulfilled (obj [(''headers'', obj [(''location'', JStr url)]), (''data'', JNull)])"
| "echo rq = Rejected (Reason JUndefined)"


section \<open>Properties of construction and configuration\<close>

lemma member_not_nullish: "\<not> nullish v \<Longrightarrow> member v k = Inr (field v k)"
  by (simp add: member_def)

lemma not_nullish_or_empty: "v \<noteq> JNull \<Longrightarrow> \<not> nullish (or_empty v)"
  by (simp add: nullish_def or_empty_def obj_def)

lemma typeof_string: "typeof v = ''string'' \<longleftrightarrow> (\<exists>s. v = JStr s)"
  by (cases v) (simp_all add: typeof_def)

lemma max_safe_integer: "0 < MAX_SAFE_INTEGER" "MAX_SAFE_INTEGER < 2 ^ LENGTH(54)"
  by (simp_all add: MAX_SAFE_INTEGER_def)

lemma length_value_zero: "length_value n = JNum 0 \<longleftrightarrow> n = 0"
proof -
  have "min n MAX_SAFE_INTEGER < 2 ^ LENGTH(54)"
    using max_safe_integer(2) by (rule min.strict_coboundedI2)
  then have "(of_nat (min n MAX_SAFE_INTEGER) :: 54 word) = 0 \<longleftrightarrow> min n MAX_SAFE_INTEGER = 0"
    unfolding word_of_nat_eq_0_iff
    using nat_dvd_not_less [of "min n MAX_SAFE_INTEGER" "2 ^ LENGTH(54)"]
    by (cases "min n MAX_SAFE_INTEGER = 0") simp_all
  moreover have "min n MAX_SAFE_INTEGER = 0 \<longleftrightarrow> n = 0"
    using max_safe_integer(1) by (auto simp: min_def)
  ultimately show ?thesis
    by (simp add: length_value_def)
qed

lemma length_zero: "member (JStr s) ''length'' = Inr (JNum 0) \<longleftrightarrow> s = []"
  by (simp add: member_def nullish_def field_def length_value_zero)

lemma BASE_URLS_object: "is_object BASE_URLS" "\<not> nullish BASE_URLS"
  by (simp_all add: BASE_URLS_def obj_def is_object_def nullish_def)

lemma supported_versions:
  "set SUPPORTED_VERSIONS = {VERSION_0, VERSION_1}" "DEFAULT_VERSION = VERSION_1"
  by (simp_all add: SUPPORTED_VERSIONS_def DEFAULT_VERSION_def)

text \<open>Construction succeeds on every parameter object whose \<^verbatim>\<open>region\<close> converts to a
  property key \<open>rs\<close>, and this is the client it returns.\<close>

lemma alexaSMAPI_result:
  assumes "params \<noteq> JNull" and "to_str (field (or_empty params) ''region'') = Inr rs"
  shows "alexaSMAPI params =
           Inr \<lparr>version = (if field (or_empty params) ''version'' \<in> {VERSION_0, VERSION_1}
                            then field (or_empty params) ''version'' else VERSION_1),
                client_baseURL =
                  (if own_property BASE_URLS rs \<noteq> None \<or> rs \<in> set object_prototype_members
                   then field BASE_URLS rs else JStr ''https://api.amazonalexa.com'')\<rparr>"
proof -
  have n: "\<not> nullish (or_empty params)"
    using assms(1) by (rule not_nullish_or_empty)
  have na: "field BASE_URLS ''NA'' = JStr ''https://api.amazonalexa.com''"
    by (simp add: BASE_URLS_def obj_def field_def)
  show ?thesis
    using assms(2)
    by (simp add: alexaSMAPI_def Let_def member_not_nullish [OF n] bindE_def in_op_def
        elem_def BASE_URLS_object supported_versions DEFAULT_GEO_REGION_def
        member_not_nullish [OF BASE_URLS_object(2)] na)
qed

text \<open>Whatever the parameters, a client that is returned speaks a supported version.\<close>

lemma alexaSMAPI_Inr_version:
  assumes "alexaSMAPI params = Inr c"
  shows "version c \<in> set SUPPORTED_VERSIONS"
  using assms
  by (auto simp: alexaSMAPI_def Let_def bindE_def supported_versions
      split: sum.splits if_splits)

text \<open>The region table on the regions it is meant for: the three codes select their URL;
  an absent region, and a string that is neither a code nor the name of a member of
  \<^verbatim>\<open>Object.prototype\<close>, select the URL of \<^verbatim>\<open>NA\<close>.\<close>

lemma base_url_of_region:
  assumes "params \<noteq> JNull" and "field (or_empty params) ''region'' = r"
  shows "r = JStr ''NA'' \<Longrightarrow>
           \<exists>c. alexaSMAPI params = Inr c \<and> client_baseURL c = JStr ''https://api.amazonalexa.com''"
    and "r = JStr ''EU'' \<Longrightarrow>
           \<exists>c. alexaSMAPI params = Inr c \<and> client_baseURL c = JStr ''https://api.eu.amazonalexa.com''"
    and "r = JStr ''FE'' \<Longrightarrow>
           \<exists>c. alexaSMAPI params = Inr c \<and> client_baseURL c = JStr ''https://api.fe.amazonalexa.com''"
    and "r = JUndefined \<or>
         (\<exists>s. r = JStr s \<and> s \<notin> {''NA'', ''EU'', ''FE''} \<and> s \<notin> set object_prototype_members) \<Longrightarrow>
           \<exists>c. alexaSMAPI params = Inr c \<and> client_baseURL c = JStr ''https://api.amazonalexa.com''"
proof -
  have own: "\<And>k. (\<exists>y. own_property BASE_URLS k = Some y) \<longleftrightarrow> k \<in> {''NA'', ''EU'', ''FE''}"
    by (auto simp: BASE_URLS_def obj_def)
  have u: "''undefined'' \<notin> set object_prototype_members"
    by (simp add: object_prototype_members_def)
  have codes: "field BASE_URLS ''NA'' = JStr ''https://api.amazonalexa.com''"
    "field BASE_URLS ''EU'' = JStr ''https://api.eu.amazonalexa.com''"
    "field BASE_URLS ''FE'' = JStr ''https://api.fe.amazonalexa.com''"
    by (simp_all add: BASE_URLS_def obj_def field_def)
  have res: "alexaSMAPI params =
      Inr \<lparr>version = (if field (or_empty params) ''version'' \<in> {VERSION_0, VERSION_1}
                       then field (or_empty params) ''version'' else VERSION_1),
           client_baseURL =
             (if own_property BASE_URLS s \<noteq> None \<or> s \<in> set object_prototype_members
              then field BASE_URLS s else JStr ''https://api.amazonalexa.com'')\<rparr>"
    if "to_str r = Inr s" for s
    using alexaSMAPI_result [of params s] assms that by simp
  show "r = JStr ''NA'' \<Longrightarrow>
      \<exists>c. alexaSMAPI params = Inr c \<and> client_baseURL c = JStr ''https://api.amazonalexa.com''"
    using res [of "''NA''"] by (simp add: own codes)
  show "r = JStr ''EU'' \<Longrightarrow>
      \<exists>c. alexaSMAPI params = Inr c \<and> client_baseURL c = JStr ''https://api.eu.amazonalexa.com''"
    using res [of "''EU''"] by (simp add: own codes)
  show "r = JStr ''FE'' \<Longrightarrow>
      \<exists>c. alexaSMAPI params = Inr c \<and> client_baseURL c = JStr ''https://api.fe.amazonalexa.com''"
    using res [of "''FE''"] by (simp add: own codes)
  show "r = JUndefined \<or>
      (\<exists>s. r = JStr s \<and> s \<notin> {''NA'', ''EU'', ''FE''} \<and> s \<notin> set object_prototype_members) \<Longrightarrow>
      \<exists>c. alexaSMAPI params = Inr c \<and> client_baseURL c = JStr ''https://api.amazonalexa.com''"
  proof (elim disjE exE conjE)
    assume "r = JUndefined"
    then show ?thesis
      using res [of "''undefined''"] u by (simp add: own)
  next
    fix s
    assume "r = JStr s" "s \<notin> {''NA'', ''EU'', ''FE''}" "s \<notin> set object_prototype_members"
    then show ?thesis
      using res [of s] by (simp add: own)
  qed
qed

text \<open>
  Claim C7, at the input where the source departs from it. The claim: a region that is not
  one of the three codes falls back to the base URL of the primary region. The source tests
  \<^verbatim>\<open>params.region in BASE_URLS\<close>, and \<^verbatim>\<open>in\<close> also finds the members that \<^verbatim>\<open>BASE_URLS\<close>
  inherits from \<^verbatim>\<open>Object.prototype\<close>: for the region \<^verbatim>\<open>'constructor'\<close> the base URL given
  to \<^verbatim>\<open>axios.create\<close> is \<^verbatim>\<open>BASE_URLS['constructor']\<close>, a function, not the URL of \<^verbatim>\<open>NA\<close>.
\<close>

theorem region_inherited_member_is_not_fallback:
  "alexaSMAPI (obj [(''region'', JStr ''constructor'')]) =
     Inr \<lparr>version = JStr ''v1'', client_baseURL = JBuiltin ''constructor''\<rparr>"
  by code_simp

text \<open>The operations read the version that the client object holds when they are called:
  with a version that is neither supported one they return \<^verbatim>\<open>undefined\<close>.\<close>

lemma operations_read_version:
  assumes "version c \<noteq> VERSION_0" and "version c \<noteq> VERSION_1"
  shows "interactionModel_update client c skillId stage locale_arg interactionModel = Inr None"
    and "skills_update client c skillId stage skillManifest = Inr None"
  using assms by (simp_all add: interactionModel_update_def skills_update_def)

text \<open>
  Claim C8, as the source has it. For every construction parameter set (any value but
  \<^verbatim>\<open>null\<close>, whose region converts to a property key) the constructor returns a client whose
  version is selected at construction: it is \<^verbatim>\<open>params.version\<close> when that is one of the two
  supported versions and \<^verbatim>\<open>v1\<close>, the newest, otherwise (unspecified or unrecognised); so the
  version of a client as it is constructed is a supported version. The version is not
  immutable: it is a writable property of the returned object, which holds whatever value
  is assigned to it, and \<^verbatim>\<open>interactionModel.update\<close>, which reads it when it is called, returns
  \<^verbatim>\<open>undefined\<close> once it is neither supported version.
\<close>

theorem client_version_selected:
  assumes "params \<noteq> JNull" and "to_str (field (or_empty params) ''region'') = Inr rs"
  shows "\<exists>c. alexaSMAPI params = Inr c \<and>
           version c = (if field (or_empty params) ''version'' \<in> set SUPPORTED_VERSIONS
                        then field (or_empty params) ''version'' else VERSION_1) \<and>
           version c \<in> set SUPPORTED_VERSIONS \<and>
           (\<forall>v. version (write_version v c) = v) \<and>
           (\<forall>v client skillId stage locale_arg payload.
              v \<notin> set SUPPORTED_VERSIONS \<longrightarrow>
              interactionModel_update client (write_version v c) skillId stage locale_arg payload
                = Inr None)"
proof -
  have w: "\<And>v c. version (write_version v c) = v"
    by (simp add: write_version_def)
  show ?thesis
    unfolding alexaSMAPI_result [OF assms]
    by (auto simp: supported_versions w intro!: operations_read_version(1))
qed

theorem client_version_selected_witness:
  "\<exists>c. alexaSMAPI (obj [(''version'', JStr ''v0'')]) = Inr c \<and> version c = JStr ''v0''"
proof -
  have a: "obj [(''version'', JStr ''v0'')] \<noteq> JNull"
    by (simp add: obj_def)
  have b: "to_str (field (or_empty (obj [(''version'', JStr ''v0'')])) ''region'') = Inr ''undefined''"
    by (simp add: or_empty_def obj_def field_def inherited_def object_prototype_members_def)
  have c: "field (or_empty (obj [(''version'', JStr ''v0'')])) ''version'' = JStr ''v0''"
    by (simp add: or_empty_def obj_def field_def)
  show ?thesis
    using client_version_selected [OF a b] by (auto simp: c supported_versions VERSION_0_def)
qed

text \<open>
  Claim C8 as it is stated says that the version is immutable after construction. A client
  constructed for \<^verbatim>\<open>v0\<close> whose \<^verbatim>\<open>version\<close> property is then assigned \<^verbatim>\<open>'v2'\<close> holds a version
  that is not supported, and its \<^verbatim>\<open>interactionModel.update\<close> returns \<^verbatim>\<open>undefined\<close> instead of
  making the legacy call.
\<close>

theorem version_is_writable_counterexample:
  "alexaSMAPI (obj [(''version'', JStr ''v0'')]) =
     Inr \<lparr>version = JStr ''v0'', client_baseURL = JStr ''https://api.amazonalexa.com''\<rparr> \<and>
   version (write_version (JStr ''v2'')
              \<lparr>version = JStr ''v0'', client_baseURL = JStr ''https://api.amazonalexa.com''\<rparr>)
     \<notin> set SUPPORTED_VERSIONS \<and>
   interactionModel_update echo
     (write_version (JStr ''v2'')
        \<lparr>version = JStr ''v0'', client_baseURL = JStr ''https://api.amazonalexa.com''\<rparr>)
     (JStr ''amzn1.ask.skill.1'') (JStr ''en-US'') (obj [(''languageModel'', obj [])])
     JUndefined = Inr None"
  by code_simp

text \<open>\<^verbatim>\<open>refreshToken\<close> and \<^verbatim>\<open>setBaseUrl\<close> throw an \<^verbatim>\<open>Error\<close>, synchronously (the result is the
  thrown value, not a promise), for every argument that is not a non-empty string; for a
  non-empty string they do not throw, and store it in the process-wide defaults of axios:
  as the \<^verbatim>\<open>Authorization\<close> header among the common headers, respectively as \<^verbatim>\<open>baseURL\<close>.\<close>

lemma configuration_argument_checked:
  "refreshToken v (c, d) =
     (if \<exists>s. v = JStr s \<and> s \<noteq> [] then Inr (c, d\<lparr>headers_common_Authorization := v\<rparr>)
      else Inl (Error ''Invalid token specified!'')) \<and>
   setBaseUrl v (c, d) =
     (if \<exists>s. v = JStr s \<and> s \<noteq> [] then Inr (c, d\<lparr>baseURL := v\<rparr>)
      else Inl (Error ''Invalid base url specified!''))"
proof (cases "typeof v = ''string''")
  case True
  then obtain s where "v = JStr s"
    by (auto simp: typeof_string)
  then show ?thesis
    by (simp add: refreshToken_def setBaseUrl_def length_zero typeof_def)
next
  case False
  then have "\<not> (\<exists>s. v = JStr s \<and> s \<noteq> [])"
    by (auto simp: typeof_string)
  with False show ?thesis
    by (simp add: refreshToken_def setBaseUrl_def)
qed

text \<open>
  Claim C9, at the input where the source departs from it. The claim: for a non-empty string
  \<^verbatim>\<open>setBaseUrl\<close> sets the base URL used by subsequent calls. \<^verbatim>\<open>setBaseUrl\<close> assigns
  \<^verbatim>\<open>axios.defaults.baseURL\<close> (line 69, whose comment says that the write is meant to go to
  \<^verbatim>\<open>rest.client\<close>), but every operation calls \<^verbatim>\<open>rest.client\<close>, the instance created with its
  own \<^verbatim>\<open>baseURL\<close>: after \<^verbatim>\<open>setBaseUrl('https://api.eu.amazonalexa.com')\<close> on a client
  constructed without parameters the client is as it was, and a call goes out with the base
  URL of \<^verbatim>\<open>NA\<close>.
\<close>

theorem setBaseUrl_not_used_by_calls:
  "alexaSMAPI JUndefined =
     Inr \<lparr>version = JStr ''v1'', client_baseURL = JStr ''https://api.amazonalexa.com''\<rparr> \<and>
   setBaseUrl (JStr ''https://api.eu.amazonalexa.com'')
     (\<lparr>version = JStr ''v1'', client_baseURL = JStr ''https://api.amazonalexa.com''\<rparr>,
      \<lparr>headers_common_Authorization = JUndefined, baseURL = JUndefined\<rparr>) =
     Inr (\<lparr>version = JStr ''v1'', client_baseURL = JStr ''https://api.amazonalexa.com''\<rparr>,
          \<lparr>headers_common_Authorization = JUndefined,
             baseURL = JStr ''https://api.eu.amazonalexa.com''\<rparr>) \<and>
   base (outgoing_call
           (\<lparr>version = JStr ''v1'', client_baseURL = JStr ''https://api.amazonalexa.com''\<rparr>,
            \<lparr>headers_common_Authorization = JUndefined,
               baseURL = JStr ''https://api.eu.amazonalexa.com''\<rparr>)
           (Get ''/v1/vendors'' (obj []))) =
     JStr ''https://api.amazonalexa.com''"
proof -
  have "alexaSMAPI JUndefined =
     Inr \<lparr>version = JStr ''v1'', client_baseURL = JStr ''https://api.amazonalexa.com''\<rparr>"
    by code_simp
  then show ?thesis
    using configuration_argument_checked
      [of "JStr ''https://api.eu.amazonalexa.com''"
          "\<lparr>version = JStr ''v1'', client_baseURL = JStr ''https://api.amazonalexa.com''\<rparr>"
          "\<lparr>headers_common_Authorization = JUndefined, baseURL = JUndefined\<rparr>"]
    by (simp add: outgoing_call_def)
qed

text \<open>The token that \<^verbatim>\<open>refreshToken\<close> stores is the \<^verbatim>\<open>Authorization\<close> that a later call goes
  out with.\<close>

lemma refreshToken_used_by_calls:
  assumes "refreshToken (JStr token) (c, d) = Inr st"
  shows "authorization (outgoing_call st rq) = JStr token"
  using assms by (auto simp: refreshToken_def outgoing_call_def split: if_splits)


section \<open>Properties of the transport adapter and the operations\<close>

text \<open>The callback of \<^verbatim>\<open>rest.head\<close> and \<^verbatim>\<open>rest.put\<close> on a response that has headers.\<close>

lemma location_etag_result:
  assumes "member response ''headers'' = Inr headers" and "\<not> nullish headers"
  shows "location_etag response =
           Inr (obj [(''location'', field headers ''location''), (''etag'', field headers ''etag'')])"
  using assms by (simp add: location_etag_def bindE_def member_def)

lemma field_absent:
  "own_property v ''location'' = None \<Longrightarrow> field v ''location'' = JUndefined"
  "own_property v ''etag'' = None \<Longrightarrow> field v ''etag'' = JUndefined"
  by (simp_all add: field_def inherited_def object_prototype_members_def)

text \<open>
  Claim C4. Under the legacy version, \<^verbatim>\<open>interactionModel.update(skillId, locale, payload)\<close>,
  for every skill id and locale (strings) and every payload, whatever stands in the fourth
  slot (\<^verbatim>\<open>undefined\<close> when it is left out), makes exactly the call that the specification
  gives for the legacy operation without a stage: a POST to
  \<^verbatim>\<open>/v0/skills/{skillId}/interactionModel/locales/{locale}\<close>, where the value of the stage
  slot is the locale, with the body \<^verbatim>\<open>{interactionModel: payload}\<close>, where the value of the
  locale slot is the payload, unchanged; the result is the normalised outcome of that call.
\<close>

theorem legacy_update_remap:
  assumes "version c = VERSION_0"
  shows "interactionModel_update client c (JStr skillId) (JStr locale) payload extra =
           Inr (Some (Inl (catch_settled
                             (then_settled
                                (client (Post (''/v0/skills/'' @ skillId
                                               @ ''/interactionModel/locales/'' @ locale)
                                           (obj [(''interactionModel'', payload)])))
                                location_etag_data)
                             reject_response))) \<and>
         spec_legacy_update_request skillId locale payload =
           Post (''/v0/skills/'' @ skillId @ ''/interactionModel/locales/'' @ locale)
             (obj [(''interactionModel'', payload)]) \<and>
         field (obj [(''interactionModel'', payload)]) ''interactionModel'' = payload"
  using assms
  by (simp add: interactionModel_update_def bindE_def rest_post_def or_empty_def
      spec_legacy_update_request_def obj_def field_def)

theorem legacy_update_remap_witness:
  "interactionModel_update echo
     \<lparr>version = JStr ''v0'', client_baseURL = JStr ''https://api.amazonalexa.com''\<rparr>
     (JStr ''amzn1.ask.skill.1'') (JStr ''en-US'') (obj [(''languageModel'', obj [])]) JUndefined =
   Inr (Some (Inl (Fulfilled
     \<lparr>own = fmap_of_list
              [(''location'',
                JStr ''/v0/skills/amzn1.ask.skill.1/interactionModel/locales/en-US''),
               (''etag'', JUndefined),
               (''interactionModel'', obj [(''languageModel'', obj [])])],
      replaced_prototype = None\<rparr>)))"
proof -
  have v: "version \<lparr>version = JStr ''v0'', client_baseURL = JStr ''https://api.amazonalexa.com''\<rparr>
             = VERSION_0"
    by (simp add: VERSION_0_def)
  have e: "then_settled
             (echo (Post ''/v0/skills/amzn1.ask.skill.1/interactionModel/locales/en-US''
                      (obj [(''interactionModel'', obj [(''languageModel'', obj [])])])))
             location_etag_data =
           Fulfilled
             \<lparr>own = fmap_of_list
                      [(''location'',
                        JStr ''/v0/skills/amzn1.ask.skill.1/interactionModel/locales/en-US''),
                       (''etag'', JUndefined),
                       (''interactionModel'', obj [(''languageModel'', obj [])])],
              replaced_prototype = None\<rparr>"
    by code_simp
  show ?thesis
    using legacy_update_remap [OF v, THEN conjunct1, of echo "''amzn1.ask.skill.1''" "''en-US''"
        "obj [(''languageModel'', obj [])]" JUndefined]
    by (simp add: e [simplified])
qed

text \<open>The sibling remap of \<^verbatim>\<open>skills.update\<close>: under the legacy version the value of the
  stage slot is the manifest, sent by PUT to \<^verbatim>\<open>/v0/skills/{skillId}\<close>.\<close>

lemma skills_update_legacy:
  assumes "version c = VERSION_0" and "to_str skillId = Inr s"
  shows "skills_update client c skillId manifest extra =
           Inr (Some (rest_put client (''/v0/skills/'' @ s) (obj [(''skillManifest'', manifest)])))"
  using assms by (simp add: skills_update_def bindE_def)

text \<open>
  Claim C5. When the HEAD or PUT call is fulfilled with a response that has headers, the
  result of \<^verbatim>\<open>rest.head\<close> and \<^verbatim>\<open>rest.put\<close> is the object of exactly the two properties
  \<^verbatim>\<open>location\<close> and \<^verbatim>\<open>etag\<close>, read from the headers; a header that is absent gives
  \<^verbatim>\<open>undefined\<close>, not an error; the response's \<^verbatim>\<open>data\<close>, whatever it is, has no part in it.
\<close>

theorem head_put_headers_only:
  assumes "member response ''headers'' = Inr headers" and "\<not> nullish headers"
  shows "(client (Head url) = Fulfilled response \<longrightarrow>
            rest_head client url =
              Fulfilled (obj [(''location'', field headers ''location''),
                              (''etag'', field headers ''etag'')])) \<and>
         (client (Put url (or_empty parameters)) = Fulfilled response \<longrightarrow>
            rest_put client url parameters =
              Fulfilled (obj [(''location'', field headers ''location''),
                              (''etag'', field headers ''etag'')])) \<and>
         (own_property headers ''location'' = None \<longrightarrow> field headers ''location'' = JUndefined) \<and>
         (own_property headers ''etag'' = None \<longrightarrow> field headers ''etag'' = JUndefined)"
  by (simp add: rest_head_def rest_put_def location_etag_result [OF assms] field_absent)

theorem head_put_headers_only_witness:
  "rest_head
     (\<lambda>r. Fulfilled (obj [(''headers'', obj [(''etag'', JStr ''abc'')]),
                         (''data'', obj [(''etag'', JStr ''body'')])]))
     ''/v1/skills/s/stages/development/interactionModel/locales/en-US'' =
   Fulfilled (obj [(''location'', JUndefined), (''etag'', JStr ''abc'')])"
proof -
  let ?response = "obj [(''headers'', obj [(''etag'', JStr ''abc'')]),
                        (''data'', obj [(''etag'', JStr ''body'')])]"
  have a: "member ?response ''headers'' = Inr (obj [(''etag'', JStr ''abc'')])"
    by (simp add: member_def nullish_def field_def obj_def)
  have b: "\<not> nullish (obj [(''etag'', JStr ''abc'')])"
    by (simp add: nullish_def obj_def)
  have c: "field (obj [(''etag'', JStr ''abc'')]) ''location'' = JUndefined"
    "field (obj [(''etag'', JStr ''abc'')]) ''etag'' = JStr ''abc''"
    by (simp_all add: field_def obj_def inherited_def object_prototype_members_def)
  show ?thesis
    using head_put_headers_only [OF a b, of "\<lambda>r. Fulfilled ?response"]
    by (simp add: c)
qed

text \<open>The result of \<^verbatim>\<open>rest.post\<close> when the call is fulfilled with a response that has
  headers: under every key but \<^verbatim>\<open>__proto__\<close> it has the body's own property of that name
  when the body has one, and otherwise the \<^verbatim>\<open>location\<close> and \<^verbatim>\<open>etag\<close> read from the headers;
  it has no own property \<^verbatim>\<open>__proto__\<close>; and an own \<^verbatim>\<open>__proto__\<close> of the body that is an
  object or \<^verbatim>\<open>null\<close> is its prototype.\<close>

lemma post_merges_body:
  assumes "client (Post url (or_empty parameters)) = Fulfilled response"
    and "member response ''headers'' = Inr headers" and "\<not> nullish headers"
  shows "\<exists>r. rest_post client url parameters = Fulfilled r \<and>
           (\<forall>k. k \<noteq> ''__proto__'' \<longrightarrow>
              fmlookup (own r) k =
                (case fmlookup (own_enumerable (field response ''data'')) k of
                   Some v \<Rightarrow> Some v
                 | None \<Rightarrow>
                     if k = ''location'' then Some (field headers ''location'')
                     else if k = ''etag'' then Some (field headers ''etag'')
                     else None)) \<and>
           fmlookup (own r) ''__proto__'' = None \<and>
           replaced_prototype r =
             (case fmlookup (own_enumerable (field response ''data'')) ''__proto__'' of
                Some p \<Rightarrow> if accepts_prototype p then Some p else None
              | None \<Rightarrow> None)"
proof -
  have n: "\<not> nullish response"
    using assms(2) by (auto simp: member_def split: if_splits)
  let ?le = "obj [(''location'', field headers ''location''), (''etag'', field headers ''etag'')]"
  let ?data = "field response ''data''"
  have first: "assign fresh_object ?le =
      \<lparr>own = fmap_of_list [(''location'', field headers ''location''),
                            (''etag'', field headers ''etag'')],
       replaced_prototype = None\<rparr>"
    by (simp add: assign_def fresh_object_def obj_def Let_def fmdrop_idle)
  have res: "location_etag_data response = Inr (assign (assign fresh_object ?le) ?data)"
    by (simp add: location_etag_data_def location_etag_result [OF assms(2,3)] bindE_def
        member_not_nullish [OF n])
  have post: "rest_post client url parameters = Fulfilled (assign (assign fresh_object ?le) ?data)"
    using assms(1) by (simp add: rest_post_def res)
  have "\<forall>k. k \<noteq> ''__proto__'' \<longrightarrow>
          fmlookup (own (assign (assign fresh_object ?le) ?data)) k =
            (case fmlookup (own_enumerable ?data) k of
               Some v \<Rightarrow> Some v
             | None \<Rightarrow>
                 if k = ''location'' then Some (field headers ''location'')
                 else if k = ''etag'' then Some (field headers ''etag'')
                 else None)"
    unfolding first
    by (auto simp: assign_def set_proto_key_def Let_def fmlookup_dom_iff
        split: option.splits)
  moreover have "fmlookup (own (assign (assign fresh_object ?le) ?data)) ''__proto__'' = None"
    unfolding first
    by (auto simp: assign_def set_proto_key_def Let_def fmlookup_dom_iff
        split: option.splits)
  moreover have "replaced_prototype (assign (assign fresh_object ?le) ?data) =
      (case fmlookup (own_enumerable ?data) ''__proto__'' of
         Some p \<Rightarrow> if accepts_prototype p then Some p else None
       | None \<Rightarrow> None)"
    unfolding first
    by (auto simp: assign_def set_proto_key_def Let_def fmlookup_dom_iff
        split: option.splits)
  ultimately show ?thesis
    using post by blast
qed

text \<open>
  Claim C6, at the input where the source departs from it. The claim: the result of a POST
  is \<^verbatim>\<open>{location, etag}\<close> merged with the JSON body at the top level, the body's keys taking
  precedence. \<^verbatim>\<open>Object.assign\<close> does not copy an own \<^verbatim>\<open>__proto__\<close> property of the body: for
  the body \<^verbatim>\<open>{"skillId": "s", "__proto__": {"location": "elsewhere"}}\<close> the result has the
  own properties \<^verbatim>\<open>location\<close>, \<^verbatim>\<open>etag\<close> and \<^verbatim>\<open>skillId\<close> only, and the value that the body
  holds under \<^verbatim>\<open>__proto__\<close> has become its prototype.
\<close>

theorem post_does_not_merge_proto_key:
  "rest_post
     (\<lambda>rq. Fulfilled
              (obj [(''headers'', obj [(''location'', JStr ''/v1/skills/s'')]),
                    (''data'', obj [(''skillId'', JStr ''s''),
                                    (''__proto__'', obj [(''location'', JStr ''elsewhere'')])])]))
     ''/v1/skills'' JUndefined =
   Fulfilled
     \<lparr>own = fmap_of_list [(''location'', JStr ''/v1/skills/s''), (''etag'', JUndefined),
                          (''skillId'', JStr ''s'')],
      replaced_prototype = Some (obj [(''location'', JStr ''elsewhere'')])\<rparr>"
  by code_simp

text \<open>
  Claim C10. \<^verbatim>\<open>intentRequests.list(params)\<close>, for a \<^verbatim>\<open>params\<close> object that has a
  \<^verbatim>\<open>skillId\<close> property, leaves the caller's object without that property and with every
  other property as it was, and forwards the object so reduced as the query parameters of
  the GET request for \<^verbatim>\<open>/v1/skills/{skillId}/history/intentRequests\<close>.
\<close>

theorem intentRequests_list_deletes_skillId:
  assumes "fmlookup m ''skillId'' = Some sk"
  shows "fst (intentRequests_list client (JObj m)) = JObj (fmdrop ''skillId'' m) \<and>
         own_property (fst (intentRequests_list client (JObj m))) ''skillId'' = None \<and>
         (\<forall>k. k \<noteq> ''skillId'' \<longrightarrow>
            own_property (fst (intentRequests_list client (JObj m))) k = fmlookup m k) \<and>
         (\<forall>s. to_str sk = Inr s \<longrightarrow>
            snd (intentRequests_list client (JObj m)) =
              Inr (catch_settled
                     (then_settled
                        (client (Get (''/v1/skills/'' @ s @ ''/history/intentRequests'')
                                   (JObj (fmdrop ''skillId'' m))))
                        response_data)
                     reject_response))"
  using assms
  by (simp add: intentRequests_list_def member_def nullish_def field_def Let_def bindE_def
      rest_get_def or_empty_def)

theorem intentRequests_list_deletes_skillId_witness:
  "own_property
     (fst (intentRequests_list (\<lambda>r. Fulfilled (obj [(''data'', obj [])]))
             (obj [(''skillId'', JStr ''amzn1.ask.skill.1''), (''maxResults'', JNum 10)])))
     ''skillId'' = None \<and>
   own_property
     (fst (intentRequests_list (\<lambda>r. Fulfilled (obj [(''data'', obj [])]))
             (obj [(''skillId'', JStr ''amzn1.ask.skill.1''), (''maxResults'', JNum 10)])))
     ''maxResults'' = Some (JNum 10) \<and>
   snd (intentRequests_list (\<lambda>r. Fulfilled (obj [(''data'', obj [])]))
          (obj [(''skillId'', JStr ''amzn1.ask.skill.1''), (''maxResults'', JNum 10)])) =
     Inr (Fulfilled (obj []))"
proof -
  have a: "fmlookup (fmap_of_list [(''skillId'', JStr ''amzn1.ask.skill.1''), (''maxResults'', JNum 10)])
             ''skillId'' = Some (JStr ''amzn1.ask.skill.1'')"
    by simp
  show ?thesis
    using intentRequests_list_deletes_skillId [OF a, of "\<lambda>r. Fulfilled (obj [(''data'', obj [])])"]
    by (simp add: obj_def response_data_def member_def nullish_def field_def)
qed


section \<open>Properties of the completion pollers\<close>




lemma promise_sleep: "then_promise (sleep ms) (\<lambda>x. x) = After ms JUndefined"
  by (simp add: sleep_def)




text \<open>What the deletion of the \<^verbatim>\<open>eTag\<close> does to a response that has the entry of the
  locale.\<close>

lemma delete_eTag_object:
  assumes "fmlookup m ''interactionModel'' = Some (JObj im)" and "fmlookup im locale = Some (JObj e)"
  shows "update_own (JObj m) ''interactionModel''
           (\<lambda>im. update_own im locale (\<lambda>entry. delete_own entry ''eTag'')) =
         JObj (fmupd ''interactionModel'' (JObj (fmupd locale (JObj (fmdrop ''eTag'' e)) im)) m)"
  using assms by simp






lemma errorSummary_result:
  assumes "\<not> nullish error"
  shows "errorSummary error =
           Inr (obj [(''status'', field error ''status''),
                     (''statusText'', field error ''statusText''),
                     (''data'', field error ''data'')])"
  using assms by (simp add: errorSummary_def member_def bindE_def)

lemma summary_fields:
  "member (obj [(''status'', st), (''statusText'', tx), (''data'', d)]) ''status'' = Inr st"
  "member (obj [(''status'', st), (''statusText'', tx), (''data'', d)]) ''data'' = Inr d"
  by (simp_all add: member_def nullish_def obj_def field_def)

lemma member_null: "member JNull k = Inl TypeError"
  by (simp add: member_def nullish_def)

lemma operation_status_line_result:
  assumes "to_str st = Inr s1" and "\<not> nullish d" and "to_str (field d ''message'') = Inr s2"
  shows "operation_status_line (obj [(''status'', st), (''statusText'', tx), (''data'', d)]) ms =
           Inr (''---> Operation status: '' @ s1 @ '' ('' @ s2 @ '') - will sleep for ''
                @ decimal (ms div 1000) @ ''s & retry <---'')"
  using assms by (simp add: operation_status_line_def summary_fields bindE_def member_not_nullish)

text \<open>\<^verbatim>\<open>retry\<close> on an error object: with status 429, a payload that is neither \<^verbatim>\<open>null\<close>
  nor \<^verbatim>\<open>undefined\<close> and a message that can be written to the log, it returns the promise
  fulfilled with \<^verbatim>\<open>undefined\<close> after \<^verbatim>\<open>RETRY_TIMEOUT\<close>; with any other status it returns
  the summary, at once.\<close>

lemma retry_on_operation_error:
  assumes "\<not> nullish error"
  shows "field error ''status'' = JNum 429 \<Longrightarrow> \<not> nullish (field error ''data'') \<Longrightarrow>
           to_str (field (field error ''data'') ''message'') = Inr msg \<Longrightarrow>
           snd (retry error) = Inr (Promise (After RETRY_TIMEOUT JUndefined))"
    and "field error ''status'' \<noteq> JNum 429 \<Longrightarrow>
           snd (retry error) =
             Inr (Value (obj [(''status'', field error ''status''),
                              (''statusText'', field error ''statusText''),
                              (''data'', field error ''data'')]))"
proof -
  show "field error ''status'' = JNum 429 \<Longrightarrow> \<not> nullish (field error ''data'') \<Longrightarrow>
           to_str (field (field error ''data'') ''message'') = Inr msg \<Longrightarrow>
           snd (retry error) = Inr (Promise (After RETRY_TIMEOUT JUndefined))"
    using operation_status_line_result [of "JNum 429" _ "field error ''data''" msg
        "field error ''statusText''" RETRY_TIMEOUT]
    by (simp add: retry_def errorSummary_result [OF assms] summary_fields promise_sleep)
  show "field error ''status'' \<noteq> JNum 429 \<Longrightarrow>
           snd (retry error) =
             Inr (Value (obj [(''status'', field error ''status''),
                              (''statusText'', field error ''statusText''),
                              (''data'', field error ''data'')]))"
    by (simp add: retry_def errorSummary_result [OF assms] summary_fields)
qed

text \<open>\<^verbatim>\<open>waitOnCertification\<close> likewise: it sleeps for \<^verbatim>\<open>WITHDRAWAL_TIMEOUT\<close> on any status but
  200, and returns the summary on 200.\<close>

lemma waitOnCertification_on_operation_error:
  assumes "\<not> nullish error"
  shows "field error ''status'' \<noteq> JNum 200 \<Longrightarrow> to_str (field error ''status'') = Inr s \<Longrightarrow>
           \<not> nullish (field error ''data'') \<Longrightarrow>
           to_str (field (field error ''data'') ''message'') = Inr msg \<Longrightarrow>
           snd (waitOnCertification error) = Inr (Promise (After WITHDRAWAL_TIMEOUT JUndefined))"
    and "field error ''status'' = JNum 200 \<Longrightarrow>
           snd (waitOnCertification error) =
             Inr (Value (obj [(''status'', field error ''status''),
                              (''statusText'', field error ''statusText''),
                              (''data'', field error ''data'')]))"
proof -
  show "field error ''status'' \<noteq> JNum 200 \<Longrightarrow> to_str (field error ''status'') = Inr s \<Longrightarrow>
           \<not> nullish (field error ''data'') \<Longrightarrow>
           to_str (field (field error ''data'') ''message'') = Inr msg \<Longrightarrow>
           snd (waitOnCertification error) = Inr (Promise (After WITHDRAWAL_TIMEOUT JUndefined))"
    using operation_status_line_result [of "field error ''status''" s "field error ''data''" msg
        "field error ''statusText''" WITHDRAWAL_TIMEOUT]
    by (simp add: waitOnCertification_def errorSummary_result [OF assms] summary_fields promise_sleep)
  show "field error ''status'' = JNum 200 \<Longrightarrow>
           snd (waitOnCertification error) =
             Inr (Value (obj [(''status'', field error ''status''),
                              (''statusText'', field error ''statusText''),
                              (''data'', field error ''data'')]))"
    by (simp add: waitOnCertification_def errorSummary_result [OF assms] summary_fields)
qed

text \<open>
  Claim C2, at the input where the source departs from it. The claim: for every operation
  error with status 429 the handler sleeps the backoff interval and signals a retry. The
  line that \<^verbatim>\<open>retry\<close> logs before it sleeps reads \<^verbatim>\<open>summary.data.message\<close>: on an error with
  status 429 whose \<^verbatim>\<open>data\<close> is \<^verbatim>\<open>null\<close>, \<^verbatim>\<open>retry\<close> throws a \<^verbatim>\<open>TypeError\<close>, having logged
  nothing and without sleeping.
\<close>

theorem retry_throws_on_null_data:
  "retry (obj [(''status'', JNum 429), (''statusText'', JStr ''Too Many Requests''),
               (''data'', JNull)]) = ([], Inl TypeError)"
proof -
  have n: "\<not> nullish (obj [(''status'', JNum 429), (''statusText'', JStr ''Too Many Requests''),
               (''data'', JNull)])"
    by (simp add: nullish_def obj_def)
  have f: "field (obj [(''status'', JNum 429), (''statusText'', JStr ''Too Many Requests''),
               (''data'', JNull)]) ''status'' = JNum 429"
    "field (obj [(''status'', JNum 429), (''statusText'', JStr ''Too Many Requests''),
               (''data'', JNull)]) ''statusText'' = JStr ''Too Many Requests''"
    "field (obj [(''status'', JNum 429), (''statusText'', JStr ''Too Many Requests''),
               (''data'', JNull)]) ''data'' = JNull"
    by (simp_all add: field_def obj_def)
  have l: "operation_status_line (obj [(''status'', JNum 429), (''statusText'', JStr ''Too Many Requests''),
               (''data'', JNull)]) RETRY_TIMEOUT = Inl TypeError"
    by (simp add: operation_status_line_def summary_fields bindE_def member_null)
  show ?thesis
    by (simp add: retry_def errorSummary_result [OF n] f summary_fields l)
qed

text \<open>
  Claim C3, at the input where the source departs from it. The claim: for every status but
  200, whatever the payload of the error, the handler sleeps the long interval and signals
  a retry. \<^verbatim>\<open>waitOnCertification\<close> logs the same line: on an error with status 400 whose
  \<^verbatim>\<open>data\<close> is \<^verbatim>\<open>null\<close> it logs the summary and throws a \<^verbatim>\<open>TypeError\<close>, without sleeping.
\<close>

theorem waitOnCertification_throws_on_null_data:
  "waitOnCertification (obj [(''status'', JNum 400), (''statusText'', JStr ''Bad Request''),
                             (''data'', JNull)]) =
     ([ConsoleLogJSON (obj [(''status'', JNum 400), (''statusText'', JStr ''Bad Request''),
                            (''data'', JNull)])],
      Inl TypeError)"
proof -
  have n: "\<not> nullish (obj [(''status'', JNum 400), (''statusText'', JStr ''Bad Request''),
               (''data'', JNull)])"
    by (simp add: nullish_def obj_def)
  have f: "field (obj [(''status'', JNum 400), (''statusText'', JStr ''Bad Request''),
               (''data'', JNull)]) ''status'' = JNum 400"
    "field (obj [(''status'', JNum 400), (''statusText'', JStr ''Bad Request''),
               (''data'', JNull)]) ''statusText'' = JStr ''Bad Request''"
    "field (obj [(''status'', JNum 400), (''statusText'', JStr ''Bad Request''),
               (''data'', JNull)]) ''data'' = JNull"
    by (simp_all add: field_def obj_def)
  have l: "operation_status_line (obj [(''status'', JNum 400), (''statusText'', JStr ''Bad Request''),
               (''data'', JNull)]) WITHDRAWAL_TIMEOUT = Inl TypeError"
    by (simp add: operation_status_line_def summary_fields bindE_def member_null)
  show ?thesis
    by (simp add: waitOnCertification_def errorSummary_result [OF n] f summary_fields l
        showError_def LOG_ERRORS_def)
qed


end
